theory Spec2Isabelle
  imports Complex_Main
begin

section \<open>Python values carried by the dictionaries\<close>

text \<open>
  Both functions of the risk engine take plain Python dictionaries
  (\<^verbatim>\<open>Dict\<close>, \<^verbatim>\<open>List[Dict]\<close>) keyed by strings. A dictionary is a map from
  strings to dynamically typed values. Finite floats are modelled by the real number
  they denote; the scores and confidences that the code produces (30.0, 20.0, 0.3, 0.6, ...)
  are reached without rounding, so nothing is lost on the output side. Comparing a
  float with an integer threshold is exact in Python, so the scorer loses nothing on the
  input side either. The one place where floats are added, \<^verbatim>\<open>sum(...)\<close> in the
  detector, is modelled with the arithmetic of the runtime as a parameter (see there).
\<close>

datatype pyval = PNone | PBool bool | PInt int | PFloat real | PStr string

datatype error = TypeError | OverflowError

type_synonym pydict = "string \<rightharpoonup> pyval"

text \<open>\<^verbatim>\<open>d.get(key, default)\<close>\<close>

definition dict_get :: "pydict \<Rightarrow> string \<Rightarrow> pyval \<Rightarrow> pyval" where
  "dict_get d k dflt = (case d k of None \<Rightarrow> dflt | Some v \<Rightarrow> v)"

text \<open>Truth value of an object, as \<^verbatim>\<open>not x\<close> tests it.\<close>

fun truthy :: "pyval \<Rightarrow> bool" where
  "truthy PNone = False"
| "truthy (PBool b) = b"
| "truthy (PInt i) = (i \<noteq> 0)"
| "truthy (PFloat r) = (r \<noteq> 0)"
| "truthy (PStr s) = (s \<noteq> [])"

text \<open>
  The number a value stands for in an ordering comparison with a number or in an
  addition to a number: \<^verbatim>\<open>bool\<close> is a subclass of \<^verbatim>\<open>int\<close>; \<^verbatim>\<open>None\<close> and strings
  raise \<^verbatim>\<open>TypeError\<close> there, which is the result \<open>None\<close>.
\<close>

fun num_of :: "pyval \<Rightarrow> real option" where
  "num_of PNone = None"
| "num_of (PBool b) = Some (if b then 1 else 0)"
| "num_of (PInt i) = Some (of_int i)"
| "num_of (PFloat r) = Some r"
| "num_of (PStr s) = None"

section \<open>The scorer: \<^verbatim>\<open>calculate_risk_score\<close> (src/utils/helpers.py)\<close>

text \<open>The \<^verbatim>\<open>if\<close>/\<^verbatim>\<open>elif\<close> chain on \<^verbatim>\<open>holder_count\<close>: what it adds to the score.\<close>

definition holder_count_penalty :: "real \<Rightarrow> real" where
  "holder_count_penalty holder_count =
     (if holder_count < 50 then 15 else if holder_count < 100 then 10 else 0)"

text \<open>The chain on \<^verbatim>\<open>top_10_pct\<close>.\<close>

definition top_10_penalty :: "real \<Rightarrow> real" where
  "top_10_penalty top_10_pct =
     (if top_10_pct > 80 then 20 else if top_10_pct > 60 then 15
      else if top_10_pct > 40 then 10 else 0)"

text \<open>The chain on \<^verbatim>\<open>dev_holdings_pct\<close>.\<close>

definition dev_holdings_penalty :: "real \<Rightarrow> real" where
  "dev_holdings_penalty dev_holdings_pct =
     (if dev_holdings_pct > 20 then 15 else if dev_holdings_pct > 10 then 10 else 0)"

text \<open>
  The function itself. The score is threaded through the statements in the order of the
  source; a comparison of a non-number with a threshold raises \<^verbatim>\<open>TypeError\<close>, which
  leaves the function (there is no handler), so the result is a sum.
\<close>

definition calculate_risk_score :: "pydict \<Rightarrow> error + real" where
  "calculate_risk_score factors =
     (let score = 0;
          score = (if \<not> truthy (dict_get factors ''mint_authority_revoked'' (PBool False))
                   then score + 30 else score);
          score = (if \<not> truthy (dict_get factors ''freeze_authority_revoked'' (PBool False))
                   then score + 20 else score)
      in case num_of (dict_get factors ''holder_count'' (PInt 0)) of
           None \<Rightarrow> Inl TypeError
         | Some holder_count \<Rightarrow>
      let score = score + holder_count_penalty holder_count
      in case num_of (dict_get factors ''top_10_holdings_pct'' (PInt 0)) of
           None \<Rightarrow> Inl TypeError
         | Some top_10_pct \<Rightarrow>
      let score = score + top_10_penalty top_10_pct
      in case num_of (dict_get factors ''dev_holdings_pct'' (PInt 0)) of
           None \<Rightarrow> Inl TypeError
         | Some dev_holdings_pct \<Rightarrow>
      let score = score + dev_holdings_penalty dev_holdings_pct;
          score = (if \<not> truthy (dict_get factors ''liquidity_locked'' (PBool False))
                   then score + 20 else score)
      in case num_of (dict_get factors ''liquidity_usd'' (PInt 0)) of
           None \<Rightarrow> Inl TypeError
         | Some liquidity_usd \<Rightarrow>
      let score = (if liquidity_usd < 5000 then score + 10 else score)
      in Inr (min score 100))"

text \<open>
  A factors dictionary with all seven keys present and typed as the data model has them:
  three booleans, an integer holder count and three floats. The key of the top-10
  concentration is the one the function reads, \<^verbatim>\<open>top_10_holdings_pct\<close>.
\<close>

definition risk_factors ::
  "bool \<Rightarrow> bool \<Rightarrow> int \<Rightarrow> real \<Rightarrow> real \<Rightarrow> bool \<Rightarrow> real \<Rightarrow> pydict" where
  "risk_factors mint_revoked freeze_revoked holders top10 dev locked liq =
     [''mint_authority_revoked'' \<mapsto> PBool mint_revoked,
      ''freeze_authority_revoked'' \<mapsto> PBool freeze_revoked,
      ''holder_count'' \<mapsto> PInt holders,
      ''top_10_holdings_pct'' \<mapsto> PFloat top10,
      ''dev_holdings_pct'' \<mapsto> PFloat dev,
      ''liquidity_locked'' \<mapsto> PBool locked,
      ''liquidity_usd'' \<mapsto> PFloat liq]"

text \<open>The sum of the penalties of the table of the specification, before the cap.\<close>

definition penalty_sum ::
  "bool \<Rightarrow> bool \<Rightarrow> int \<Rightarrow> real \<Rightarrow> real \<Rightarrow> bool \<Rightarrow> real \<Rightarrow> real" where
  "penalty_sum mint_revoked freeze_revoked holders top10 dev locked liq =
     (if \<not> mint_revoked then 30 else 0)
   + (if \<not> freeze_revoked then 20 else 0)
   + (if holders < 50 then 15 else 0)
   + (if 50 \<le> holders \<and> holders < 100 then 10 else 0)
   + (if top10 > 80 then 20 else 0)
   + (if 60 < top10 \<and> top10 \<le> 80 then 15 else 0)
   + (if 40 < top10 \<and> top10 \<le> 60 then 10 else 0)
   + (if dev > 20 then 15 else 0)
   + (if 10 < dev \<and> dev \<le> 20 then 10 else 0)
   + (if \<not> locked then 20 else 0)
   + (if liq < 5000 then 10 else 0)"

section \<open>The pattern detector: \<^verbatim>\<open>detect_rug_patterns\<close> (src/ai/analyzer.py)\<close>

text \<open>
  The result dictionary \<^verbatim>\<open>patterns\<close> has four fixed keys; it is a record. Its
  \<^verbatim>\<open>risk_level\<close> only ever holds one of the three literals \<^verbatim>\<open>"LOW"\<close>,
  \<^verbatim>\<open>"MEDIUM"\<close>, \<^verbatim>\<open>"HIGH"\<close>.
\<close>

datatype level = LOW | MEDIUM | HIGH

record verdict =
  is_suspicious :: bool
  risk_level :: level
  detected_patterns :: "string list"
  confidence :: real

text \<open>The order of the levels, LOW below MEDIUM below HIGH.\<close>

fun level_rank :: "level \<Rightarrow> nat" where
  "level_rank LOW = 0"
| "level_rank MEDIUM = 1"
| "level_rank HIGH = 2"

text \<open>
  \<^verbatim>\<open>sum(...)\<close> over the amounts starts from the integer 0 and adds the items from the
  left. Integers (and booleans, which are integers) are unbounded and add exactly. From
  the first float on, the result is a float: a double, possibly an infinity or a NaN.
  How doubles are accumulated (the rounding of each addition, the compensated summation
  of later interpreter versions) belongs to the interpreter and not to the repository,
  so the float that comes out is a parameter \<open>fsum\<close> of the model: a function of the
  integer accumulated so far and of the items from the first float on. What does not
  depend on it is when the sum raises: an item that is not a number raises
  \<^verbatim>\<open>TypeError\<close>, and an integer that has to be converted to a float (the integer
  accumulated before the first float, and every integer item after it) raises
  \<^verbatim>\<open>OverflowError\<close> when it is too large for a double. The largest double is
  \<open>2 ^ 1024 - 2 ^ 971\<close> and the conversion rounds to nearest, ties to even, so it
  raises from \<open>2 ^ 1024 - 2 ^ 970\<close> on.
\<close>

datatype fval = Finite real | PosInf | NegInf | NaN

type_synonym float_sum = "int \<Rightarrow> pyval list \<Rightarrow> fval"

text \<open>The exception that \<^verbatim>\<open>float(i)\<close> raises on an integer, if any.\<close>

definition float_conv :: "int \<Rightarrow> error option" where
  "float_conv i = (if 2 ^ 1024 - 2 ^ 970 \<le> \<bar>i\<bar> then Some OverflowError else None)"

text \<open>
  The first exception raised while the items after the first float are added to the
  float accumulated so far, if any.
\<close>

fun float_phase :: "pyval list \<Rightarrow> error option" where
  "float_phase [] = None"
| "float_phase (PFloat x # vs) = float_phase vs"
| "float_phase (PBool b # vs) = float_phase vs"
| "float_phase (PInt i # vs) =
     (case float_conv i of Some e \<Rightarrow> Some e | None \<Rightarrow> float_phase vs)"
| "float_phase (PNone # vs) = Some TypeError"
| "float_phase (PStr s # vs) = Some TypeError"

text \<open>The value of the sum: an integer, or a float.\<close>

datatype pynum = NInt int | NFloat fval

fun py_sum :: "float_sum \<Rightarrow> int \<Rightarrow> pyval list \<Rightarrow> error + pynum" where
  "py_sum fsum acc [] = Inr (NInt acc)"
| "py_sum fsum acc (PInt i # vs) = py_sum fsum (acc + i) vs"
| "py_sum fsum acc (PBool b # vs) = py_sum fsum (acc + (if b then 1 else 0)) vs"
| "py_sum fsum acc (PFloat x # vs) =
     (case float_conv acc of
        Some e \<Rightarrow> Inl e
      | None \<Rightarrow>
          (case float_phase vs of
             Some e \<Rightarrow> Inl e
           | None \<Rightarrow> Inr (NFloat (fsum acc (PFloat x # vs)))))"
| "py_sum fsum acc (PNone # vs) = Inl TypeError"
| "py_sum fsum acc (PStr s # vs) = Inl TypeError"

text \<open>
  The test \<^verbatim>\<open>total_removed > 50\<close>: exact on an integer and on a finite double; an
  infinity compares by its sign and a NaN compares false.
\<close>

fun exceeds_50 :: "pynum \<Rightarrow> bool" where
  "exceeds_50 (NInt s) = (50 < s)"
| "exceeds_50 (NFloat (Finite r)) = (50 < r)"
| "exceeds_50 (NFloat PosInf) = True"
| "exceeds_50 (NFloat NegInf) = False"
| "exceeds_50 (NFloat NaN) = False"

text \<open>The last statement of the \<^verbatim>\<open>try\<close> block.\<close>

definition set_confidence :: "verdict \<Rightarrow> verdict" where
  "set_confidence patterns =
     patterns\<lparr>confidence := min (real (length (detected_patterns patterns)) * 0.3) 1\<rparr>"

text \<open>
  The body of the \<^verbatim>\<open>try\<close> block. It updates \<^verbatim>\<open>patterns\<close> in place, so an
  exception leaves the updates made so far: the body returns the dictionary as it
  stands together with the exception, if one was raised.
\<close>

definition detect_try :: "float_sum \<Rightarrow> pydict list \<Rightarrow> verdict \<Rightarrow> verdict \<times> error option" where
  "detect_try fsum transaction_history patterns =
     (let dev_sells = filter (\<lambda>tx. dict_get tx ''type'' PNone = PStr ''dev_sell'')
                        transaction_history;
          lp_removes = filter (\<lambda>tx. dict_get tx ''type'' PNone = PStr ''lp_remove'')
                         transaction_history;
          patterns = (if length dev_sells > 3
                      then patterns\<lparr>detected_patterns := detected_patterns patterns
                                       @ [''Multiple dev wallet sells detected''],
                                     risk_level := MEDIUM\<rparr>
                      else patterns)
      in if length lp_removes > 0
         then (case py_sum fsum 0 (map (\<lambda>tx. dict_get tx ''amount'' (PInt 0)) lp_removes) of
                 Inl e \<Rightarrow> (patterns, Some e)
               | Inr total_removed \<Rightarrow>
                   let patterns = (if exceeds_50 total_removed
                                   then patterns\<lparr>detected_patterns := detected_patterns patterns
                                                    @ [''Significant liquidity removal''],
                                                  risk_level := HIGH,
                                                  is_suspicious := True\<rparr>
                                   else patterns)
                   in (set_confidence patterns, None))
         else (set_confidence patterns, None))"

text \<open>
  The function: the handler \<^verbatim>\<open>except Exception\<close> logs the exception and falls through
  to \<^verbatim>\<open>return patterns\<close>, so nothing leaves the function but the dictionary.
\<close>

definition detect_rug_patterns :: "float_sum \<Rightarrow> pydict list \<Rightarrow> verdict" where
  "detect_rug_patterns fsum transaction_history =
     fst (detect_try fsum transaction_history
            \<lparr>is_suspicious = False, risk_level = LOW, detected_patterns = [],
             confidence = 0\<rparr>)"

text \<open>
  What the statements about a transaction history speak of: the records of a kind, the
  number of \<^verbatim>\<open>dev_sell\<close> records, the amount of a record as a number (a record
  without the key counts 0, as \<^verbatim>\<open>tx.get('amount', 0)\<close> reads it), the sum of the
  amounts of the \<^verbatim>\<open>lp_remove\<close> records as a real number, and what \<^verbatim>\<open>sum(...)\<close>
  makes of these amounts.
\<close>

definition has_kind :: "string \<Rightarrow> pydict \<Rightarrow> bool" where
  "has_kind k tx = (tx ''type'' = Some (PStr k))"

definition dev_sell_count :: "pydict list \<Rightarrow> nat" where
  "dev_sell_count h = length (filter (has_kind ''dev_sell'') h)"

definition amount_of :: "pydict \<Rightarrow> real" where
  "amount_of tx = (case num_of (dict_get tx ''amount'' (PInt 0)) of Some x \<Rightarrow> x | None \<Rightarrow> 0)"

definition lp_removed_total :: "pydict list \<Rightarrow> real" where
  "lp_removed_total h = sum_list (map amount_of (filter (has_kind ''lp_remove'') h))"

definition lp_sum :: "float_sum \<Rightarrow> pydict list \<Rightarrow> error + pynum" where
  "lp_sum fsum h =
     py_sum fsum 0 (map (\<lambda>tx. dict_get tx ''amount'' (PInt 0)) (filter (has_kind ''lp_remove'') h))"

text \<open>
  The amounts of the \<^verbatim>\<open>lp_remove\<close> records are numbers (or absent); they are integers
  (or absent).
\<close>

definition numeric_amounts :: "pydict list \<Rightarrow> bool" where
  "numeric_amounts h =
     list_all (\<lambda>tx. num_of (dict_get tx ''amount'' (PInt 0)) \<noteq> None)
       (filter (has_kind ''lp_remove'') h)"

fun is_int :: "pyval \<Rightarrow> bool" where
  "is_int (PInt i) = True"
| "is_int (PBool b) = True"
| "is_int v = False"

definition int_amounts :: "pydict list \<Rightarrow> bool" where
  "int_amounts h =
     list_all (\<lambda>tx. is_int (dict_get tx ''amount'' (PInt 0)))
       (filter (has_kind ''lp_remove'') h)"

text \<open>
  A transaction record with both keys and an integer amount, as the tests build them
  (\<^verbatim>\<open>{"type": "lp_remove", "amount": 60}\<close>).
\<close>

definition tx_record :: "string \<Rightarrow> int \<Rightarrow> pydict" where
  "tx_record kind amount = [''type'' \<mapsto> PStr kind, ''amount'' \<mapsto> PInt amount]"

text \<open>
  The sum of the \<^verbatim>\<open>lp_remove\<close> amounts is returned and compares above 50: the
  condition under which the second \<^verbatim>\<open>if\<close> of the function writes to the dictionary.
\<close>

definition sum_exceeds_50 :: "float_sum \<Rightarrow> pydict list \<Rightarrow> bool" where
  "sum_exceeds_50 fsum h = (case lp_sum fsum h of Inl e \<Rightarrow> False | Inr t \<Rightarrow> exceeds_50 t)"

text \<open>The exception raised in the body of the \<^verbatim>\<open>try\<close> block, if any.\<close>

definition raised :: "float_sum \<Rightarrow> pydict list \<Rightarrow> error option" where
  "raised fsum h =
     snd (detect_try fsum h
            \<lparr>is_suspicious = False, risk_level = LOW, detected_patterns = [],
             confidence = 0\<rparr>)"

text \<open>
  A factors dictionary in which any of the seven keys may be absent: a key is present
  exactly when its value is given.
\<close>

definition partial_factors ::
  "bool option \<Rightarrow> bool option \<Rightarrow> int option \<Rightarrow> real option \<Rightarrow> real option \<Rightarrow> bool option
     \<Rightarrow> real option \<Rightarrow> pydict" where
  "partial_factors mint_revoked freeze_revoked holders top10 dev locked liq =
     (\<lambda>k. if k = ''mint_authority_revoked'' then map_option PBool mint_revoked
          else if k = ''freeze_authority_revoked'' then map_option PBool freeze_revoked
          else if k = ''holder_count'' then map_option PInt holders
          else if k = ''top_10_holdings_pct'' then map_option PFloat top10
          else if k = ''dev_holdings_pct'' then map_option PFloat dev
          else if k = ''liquidity_locked'' then map_option PBool locked
          else if k = ''liquidity_usd'' then map_option PFloat liq
          else None)"

text \<open>
  A factors dictionary is numeric at a key when the key is absent or holds a number.
\<close>

definition numeric_field :: "pydict \<Rightarrow> string \<Rightarrow> bool" where
  "numeric_field factors k = (case factors k of None \<Rightarrow> True | Some v \<Rightarrow> num_of v \<noteq> None)"

section \<open>Properties of the scorer\<close>

lemma dict_get_risk_factors:
  "dict_get (risk_factors m f h t d l u) ''mint_authority_revoked'' x = PBool m"
  "dict_get (risk_factors m f h t d l u) ''freeze_authority_revoked'' x = PBool f"
  "dict_get (risk_factors m f h t d l u) ''holder_count'' x = PInt h"
  "dict_get (risk_factors m f h t d l u) ''top_10_holdings_pct'' x = PFloat t"
  "dict_get (risk_factors m f h t d l u) ''dev_holdings_pct'' x = PFloat d"
  "dict_get (risk_factors m f h t d l u) ''liquidity_locked'' x = PBool l"
  "dict_get (risk_factors m f h t d l u) ''liquidity_usd'' x = PFloat u"
  by (simp_all add: dict_get_def risk_factors_def)

lemma calculate_risk_score_risk_factors:
  "calculate_risk_score (risk_factors m f h t d l u) =
     Inr (min ((if \<not> m then 30 else 0) + (if \<not> f then 20 else 0)
               + holder_count_penalty (of_int h) + top_10_penalty t
               + dev_holdings_penalty d + (if \<not> l then 20 else 0)
               + (if u < 5000 then 10 else 0)) 100)"
  by (simp add: calculate_risk_score_def dict_get_risk_factors Let_def)

lemma penalty_sum_eq:
  "penalty_sum m f h t d l u =
     (if \<not> m then 30 else 0) + (if \<not> f then 20 else 0)
     + holder_count_penalty (of_int h) + top_10_penalty t
     + dev_holdings_penalty d + (if \<not> l then 20 else 0)
     + (if u < 5000 then 10 else 0)"
  by (simp add: penalty_sum_def holder_count_penalty_def top_10_penalty_def
        dev_holdings_penalty_def)

text \<open>
  Claim C1. For every typed factors dictionary the score is the sum of the penalties of
  the table, capped at 100. The equation needs no restriction of the numeric fields to
  their ranges, so it holds in particular inside them. The all-clean scenario scores 0;
  the all-bad scenario has the raw sum 130 and scores exactly 100.
\<close>

theorem calculate_risk_score_table:
  "calculate_risk_score (risk_factors m f h t d l u) = Inr (min (penalty_sum m f h t d l u) 100)
   \<and> calculate_risk_score (risk_factors True True 1000 10 2 True 100000) = Inr 0
   \<and> penalty_sum False False 10 95 30 False 100 = 130
   \<and> calculate_risk_score (risk_factors False False 10 95 30 False 100) = Inr 100"
  by (simp add: calculate_risk_score_risk_factors penalty_sum_eq holder_count_penalty_def
        top_10_penalty_def dev_holdings_penalty_def)

lemma penalty_bounds:
  "0 \<le> holder_count_penalty h" "holder_count_penalty h \<le> 15"
  "0 \<le> top_10_penalty t" "top_10_penalty t \<le> 20"
  "0 \<le> dev_holdings_penalty d" "dev_holdings_penalty d \<le> 15"
  by (simp_all add: holder_count_penalty_def top_10_penalty_def dev_holdings_penalty_def)

lemma numeric_fieldD:
  "numeric_field factors k \<Longrightarrow> num_of d \<noteq> None \<Longrightarrow> \<exists>x. num_of (dict_get factors k d) = Some x"
  by (auto simp: numeric_field_def dict_get_def split: option.splits)

text \<open>
  Claim C4. On every dictionary whose four numeric fields are numbers (of any size and
  sign) or absent, whatever the three flags hold, the function returns a score, and the
  score lies between 0 and 100.
\<close>

theorem calculate_risk_score_bounded:
  assumes "numeric_field factors ''holder_count''"
    and "numeric_field factors ''top_10_holdings_pct''"
    and "numeric_field factors ''dev_holdings_pct''"
    and "numeric_field factors ''liquidity_usd''"
  shows "\<exists>score. calculate_risk_score factors = Inr score \<and> 0 \<le> score \<and> score \<le> 100"
proof -
  obtain h where h: "num_of (dict_get factors ''holder_count'' (PInt 0)) = Some h"
    using numeric_fieldD [OF assms(1), of "PInt 0"] by auto
  obtain t where t: "num_of (dict_get factors ''top_10_holdings_pct'' (PInt 0)) = Some t"
    using numeric_fieldD [OF assms(2), of "PInt 0"] by auto
  obtain d where d: "num_of (dict_get factors ''dev_holdings_pct'' (PInt 0)) = Some d"
    using numeric_fieldD [OF assms(3), of "PInt 0"] by auto
  obtain u where u: "num_of (dict_get factors ''liquidity_usd'' (PInt 0)) = Some u"
    using numeric_fieldD [OF assms(4), of "PInt 0"] by auto
  have "0 \<le> holder_count_penalty h + top_10_penalty t + dev_holdings_penalty d"
    using penalty_bounds(1) [of h] penalty_bounds(3) [of t] penalty_bounds(5) [of d] by linarith
  then show ?thesis
    by (simp add: calculate_risk_score_def h t d u Let_def)
qed

theorem calculate_risk_score_bounded_witness:
  "numeric_field [''holder_count'' \<mapsto> PInt (- 5), ''top_10_holdings_pct'' \<mapsto> PFloat 250,
      ''dev_holdings_pct'' \<mapsto> PFloat (- 3)] ''holder_count''
   \<and> numeric_field [''holder_count'' \<mapsto> PInt (- 5), ''top_10_holdings_pct'' \<mapsto> PFloat 250,
      ''dev_holdings_pct'' \<mapsto> PFloat (- 3)] ''top_10_holdings_pct''
   \<and> numeric_field [''holder_count'' \<mapsto> PInt (- 5), ''top_10_holdings_pct'' \<mapsto> PFloat 250,
      ''dev_holdings_pct'' \<mapsto> PFloat (- 3)] ''dev_holdings_pct''
   \<and> numeric_field [''holder_count'' \<mapsto> PInt (- 5), ''top_10_holdings_pct'' \<mapsto> PFloat 250,
      ''dev_holdings_pct'' \<mapsto> PFloat (- 3)] ''liquidity_usd''
   \<and> (\<exists>score. calculate_risk_score [''holder_count'' \<mapsto> PInt (- 5),
        ''top_10_holdings_pct'' \<mapsto> PFloat 250, ''dev_holdings_pct'' \<mapsto> PFloat (- 3)] = Inr score
        \<and> 0 \<le> score \<and> score \<le> 100)"
  using calculate_risk_score_bounded
    [of "[''holder_count'' \<mapsto> PInt (- 5), ''top_10_holdings_pct'' \<mapsto> PFloat 250,
          ''dev_holdings_pct'' \<mapsto> PFloat (- 3)]"]
  by (simp add: numeric_field_def)

lemma penalty_mono:
  "h' \<le> h \<Longrightarrow> holder_count_penalty h \<le> holder_count_penalty h'"
  "t \<le> t' \<Longrightarrow> top_10_penalty t \<le> top_10_penalty t'"
  "d \<le> d' \<Longrightarrow> dev_holdings_penalty d \<le> dev_holdings_penalty d'"
  by (simp_all add: holder_count_penalty_def top_10_penalty_def dev_holdings_penalty_def)

text \<open>
  Claim C5. Monotonicity: when every field of a second input is equal to the field of the
  first or moved in the risk-increasing direction (an authority or the lock no longer
  revoked or locked, fewer holders, less liquidity, a higher top-10 or developer share),
  both inputs get a score and the score of the second is at least the score of the
  first. Two inputs that differ in exactly one field are the special case where the other
  six comparisons are equalities.
\<close>

theorem calculate_risk_score_monotone:
  assumes "m' \<longrightarrow> m" and "f' \<longrightarrow> f" and "h' \<le> h" and "t \<le> t'" and "d \<le> d'"
    and "l' \<longrightarrow> l" and "u' \<le> u"
  shows "\<exists>s s'. calculate_risk_score (risk_factors m f h t d l u) = Inr s
           \<and> calculate_risk_score (risk_factors m' f' h' t' d' l' u') = Inr s' \<and> s \<le> s'"
proof -
  define a where "a = (if \<not> m then 30 else (0::real))"
  define a' where "a' = (if \<not> m' then 30 else (0::real))"
  define b where "b = (if \<not> f then 20 else (0::real))"
  define b' where "b' = (if \<not> f' then 20 else (0::real))"
  define g where "g = (if \<not> l then 20 else (0::real))"
  define g' where "g' = (if \<not> l' then 20 else (0::real))"
  define i where "i = (if u < 5000 then 10 else (0::real))"
  define i' where "i' = (if u' < 5000 then 10 else (0::real))"
  have a: "a \<le> a'" using assms(1) by (simp add: a_def a'_def)
  have b: "b \<le> b'" using assms(2) by (simp add: b_def b'_def)
  have c: "holder_count_penalty (of_int h) \<le> holder_count_penalty (of_int h')"
    using assms(3) by (simp add: penalty_mono(1))
  have d: "top_10_penalty t \<le> top_10_penalty t'"
    using assms(4) by (rule penalty_mono(2))
  have e: "dev_holdings_penalty d \<le> dev_holdings_penalty d'"
    using assms(5) by (rule penalty_mono(3))
  have g: "g \<le> g'" using assms(6) by (simp add: g_def g'_def)
  have i: "i \<le> i'" using assms(7) by (simp add: i_def i'_def)
  have le: "a + b + holder_count_penalty (of_int h) + top_10_penalty t
               + dev_holdings_penalty d + g + i
     \<le> a' + b' + holder_count_penalty (of_int h') + top_10_penalty t'
               + dev_holdings_penalty d' + g' + i'"
    using a b c d e g i by linarith
  have s: "calculate_risk_score (risk_factors m f h t d l u) =
     Inr (min (a + b + holder_count_penalty (of_int h) + top_10_penalty t
               + dev_holdings_penalty d + g + i) 100)"
    unfolding a_def b_def g_def i_def by (rule calculate_risk_score_risk_factors)
  have s': "calculate_risk_score (risk_factors m' f' h' t' d' l' u') =
     Inr (min (a' + b' + holder_count_penalty (of_int h') + top_10_penalty t'
               + dev_holdings_penalty d' + g' + i') 100)"
    unfolding a'_def b'_def g'_def i'_def by (rule calculate_risk_score_risk_factors)
  from le have "min (a + b + holder_count_penalty (of_int h) + top_10_penalty t
               + dev_holdings_penalty d + g + i) 100
     \<le> min (a' + b' + holder_count_penalty (of_int h') + top_10_penalty t'
               + dev_holdings_penalty d' + g' + i') 100"
    by (rule min.mono) simp
  with s s' show ?thesis by blast
qed

theorem calculate_risk_score_monotone_witness:
  "(49::int) \<le> 120 \<and> (30::real) \<le> 70 \<and> (5::real) \<le> 5 \<and> (4000::real) \<le> 9000
   \<and> (\<exists>s s'. calculate_risk_score (risk_factors True True 120 30 5 True 9000) = Inr s
           \<and> calculate_risk_score (risk_factors True False 49 70 5 True 4000) = Inr s' \<and> s \<le> s')"
  using calculate_risk_score_monotone [of True True False True 49 120 30 70 5 5 True True 4000 9000]
  by simp

text \<open>
  Claim C6. Each bucketed factor adds one tier only, the most severe one that matches:
  its penalty is the maximum, not the sum, of the weights of the matching tiers, and with
  all other factors clean it is the whole score. A top-10 share of 85 adds exactly 20, a
  holder count of 50 adds 10 and a holder count of 49 adds 15.
\<close>

theorem bucket_single_tier:
  "holder_count_penalty h = max (if h < 50 then 15 else 0) (if h < 100 then 10 else 0)
   \<and> top_10_penalty t = max (if t > 80 then 20 else 0)
                           (max (if t > 60 then 15 else 0) (if t > 40 then 10 else 0))
   \<and> dev_holdings_penalty d = max (if d > 20 then 15 else 0) (if d > 10 then 10 else 0)
   \<and> calculate_risk_score (risk_factors True True hc 10 2 True 100000)
       = Inr (holder_count_penalty (of_int hc))
   \<and> calculate_risk_score (risk_factors True True 1000 t 2 True 100000) = Inr (top_10_penalty t)
   \<and> calculate_risk_score (risk_factors True True 1000 10 d True 100000)
       = Inr (dev_holdings_penalty d)
   \<and> top_10_penalty 85 = 20
   \<and> calculate_risk_score (risk_factors True True 1000 85 2 True 100000) = Inr 20
   \<and> holder_count_penalty 50 = 10
   \<and> calculate_risk_score (risk_factors True True 50 10 2 True 100000) = Inr 10
   \<and> holder_count_penalty 49 = 15
   \<and> calculate_risk_score (risk_factors True True 49 10 2 True 100000) = Inr 15"
  by (simp add: calculate_risk_score_risk_factors holder_count_penalty_def top_10_penalty_def
        dev_holdings_penalty_def)

lemma calculate_risk_score_cong:
  assumes "dict_get f ''mint_authority_revoked'' (PBool False)
           = dict_get g ''mint_authority_revoked'' (PBool False)"
    and "dict_get f ''freeze_authority_revoked'' (PBool False)
         = dict_get g ''freeze_authority_revoked'' (PBool False)"
    and "dict_get f ''holder_count'' (PInt 0) = dict_get g ''holder_count'' (PInt 0)"
    and "dict_get f ''top_10_holdings_pct'' (PInt 0) = dict_get g ''top_10_holdings_pct'' (PInt 0)"
    and "dict_get f ''dev_holdings_pct'' (PInt 0) = dict_get g ''dev_holdings_pct'' (PInt 0)"
    and "dict_get f ''liquidity_locked'' (PBool False)
         = dict_get g ''liquidity_locked'' (PBool False)"
    and "dict_get f ''liquidity_usd'' (PInt 0) = dict_get g ''liquidity_usd'' (PInt 0)"
  shows "calculate_risk_score f = calculate_risk_score g"
  unfolding calculate_risk_score_def assms by (rule refl)

lemma dict_get_upd_default:
  "m k = None \<Longrightarrow> d' = d \<or> k' \<noteq> k \<Longrightarrow> dict_get (m(k \<mapsto> d)) k' d' = dict_get m k' d'"
  by (auto simp: dict_get_def)

lemma calculate_risk_score_flag_default:
  assumes "factors k = None"
    and "k = ''mint_authority_revoked'' \<or> k = ''freeze_authority_revoked''
         \<or> k = ''liquidity_locked''"
  shows "calculate_risk_score (factors(k \<mapsto> PBool False)) = calculate_risk_score factors"
proof (rule calculate_risk_score_cong)
  show "dict_get (factors(k \<mapsto> PBool False)) ''holder_count'' (PInt 0)
        = dict_get factors ''holder_count'' (PInt 0)"
    by (rule dict_get_upd_default [of factors k, OF assms(1)]) (use assms(2) in auto)
  show "dict_get (factors(k \<mapsto> PBool False)) ''top_10_holdings_pct'' (PInt 0)
        = dict_get factors ''top_10_holdings_pct'' (PInt 0)"
    by (rule dict_get_upd_default [of factors k, OF assms(1)]) (use assms(2) in auto)
  show "dict_get (factors(k \<mapsto> PBool False)) ''dev_holdings_pct'' (PInt 0)
        = dict_get factors ''dev_holdings_pct'' (PInt 0)"
    by (rule dict_get_upd_default [of factors k, OF assms(1)]) (use assms(2) in auto)
  show "dict_get (factors(k \<mapsto> PBool False)) ''liquidity_usd'' (PInt 0)
        = dict_get factors ''liquidity_usd'' (PInt 0)"
    by (rule dict_get_upd_default [of factors k, OF assms(1)]) (use assms(2) in auto)
qed (simp_all add: dict_get_upd_default [of factors k, OF assms(1)])

lemma calculate_risk_score_number_default:
  assumes "factors k = None"
    and "k = ''holder_count'' \<or> k = ''top_10_holdings_pct'' \<or> k = ''dev_holdings_pct''
         \<or> k = ''liquidity_usd''"
  shows "calculate_risk_score (factors(k \<mapsto> PInt 0)) = calculate_risk_score factors"
proof (rule calculate_risk_score_cong)
  show "dict_get (factors(k \<mapsto> PInt 0)) ''mint_authority_revoked'' (PBool False)
        = dict_get factors ''mint_authority_revoked'' (PBool False)"
    by (rule dict_get_upd_default [of factors k, OF assms(1)]) (use assms(2) in auto)
  show "dict_get (factors(k \<mapsto> PInt 0)) ''freeze_authority_revoked'' (PBool False)
        = dict_get factors ''freeze_authority_revoked'' (PBool False)"
    by (rule dict_get_upd_default [of factors k, OF assms(1)]) (use assms(2) in auto)
  show "dict_get (factors(k \<mapsto> PInt 0)) ''liquidity_locked'' (PBool False)
        = dict_get factors ''liquidity_locked'' (PBool False)"
    by (rule dict_get_upd_default [of factors k, OF assms(1)]) (use assms(2) in auto)
qed (simp_all add: dict_get_upd_default [of factors k, OF assms(1)])

text \<open>
  A dictionary in which any of the seven keys may be absent: every read finds the value
  given, or the default of the read.
\<close>

lemma dict_get_partial_factors:
  "dict_get (partial_factors m f h t d l u) ''mint_authority_revoked'' (PBool False)
     = PBool (case m of None \<Rightarrow> False | Some b \<Rightarrow> b)"
  "dict_get (partial_factors m f h t d l u) ''freeze_authority_revoked'' (PBool False)
     = PBool (case f of None \<Rightarrow> False | Some b \<Rightarrow> b)"
  "dict_get (partial_factors m f h t d l u) ''holder_count'' (PInt 0)
     = PInt (case h of None \<Rightarrow> 0 | Some i \<Rightarrow> i)"
  "num_of (dict_get (partial_factors m f h t d l u) ''top_10_holdings_pct'' (PInt 0))
     = Some (case t of None \<Rightarrow> 0 | Some x \<Rightarrow> x)"
  "num_of (dict_get (partial_factors m f h t d l u) ''dev_holdings_pct'' (PInt 0))
     = Some (case d of None \<Rightarrow> 0 | Some x \<Rightarrow> x)"
  "dict_get (partial_factors m f h t d l u) ''liquidity_locked'' (PBool False)
     = PBool (case l of None \<Rightarrow> False | Some b \<Rightarrow> b)"
  "num_of (dict_get (partial_factors m f h t d l u) ''liquidity_usd'' (PInt 0))
     = Some (case u of None \<Rightarrow> 0 | Some x \<Rightarrow> x)"
  by (simp_all add: dict_get_def partial_factors_def split: option.split)

lemma calculate_risk_score_partial_factors:
  "calculate_risk_score (partial_factors m f h t d l u) =
     Inr (min (penalty_sum (case m of None \<Rightarrow> False | Some b \<Rightarrow> b)
                 (case f of None \<Rightarrow> False | Some b \<Rightarrow> b)
                 (case h of None \<Rightarrow> 0 | Some i \<Rightarrow> i)
                 (case t of None \<Rightarrow> 0 | Some x \<Rightarrow> x)
                 (case d of None \<Rightarrow> 0 | Some x \<Rightarrow> x)
                 (case l of None \<Rightarrow> False | Some b \<Rightarrow> b)
                 (case u of None \<Rightarrow> 0 | Some x \<Rightarrow> x)) 100)"
  by (simp add: calculate_risk_score_def dict_get_partial_factors Let_def penalty_sum_eq)

lemma partial_factors_all:
  "partial_factors (Some m) (Some f) (Some h) (Some t) (Some d) (Some l) (Some u)
     = risk_factors m f h t d l u"
  by (rule ext) (simp add: partial_factors_def risk_factors_def)

lemma partial_factors_none:
  "partial_factors None None None None None None None = Map.empty"
  by (rule ext) (simp add: partial_factors_def)

lemma partial_factors_holders:
  "partial_factors None None (Some 200) None None None None = [''holder_count'' \<mapsto> PInt 200]"
  by (rule ext) (simp add: partial_factors_def)

text \<open>A score that is returned is the capped sum of the seven contributions.\<close>

lemma calculate_risk_score_InrD:
  assumes "calculate_risk_score factors = Inr s"
  shows "\<exists>hc tp dp lu.
           s = min ((if \<not> truthy (dict_get factors ''mint_authority_revoked'' (PBool False))
                     then 30 else 0)
                    + (if \<not> truthy (dict_get factors ''freeze_authority_revoked'' (PBool False))
                       then 20 else 0)
                    + holder_count_penalty hc + top_10_penalty tp + dev_holdings_penalty dp
                    + (if \<not> truthy (dict_get factors ''liquidity_locked'' (PBool False))
                       then 20 else 0)
                    + (if lu < 5000 then 10 else 0)) 100
           \<and> num_of (dict_get factors ''holder_count'' (PInt 0)) = Some hc
           \<and> num_of (dict_get factors ''liquidity_usd'' (PInt 0)) = Some lu"
proof -
  obtain hc where hc: "num_of (dict_get factors ''holder_count'' (PInt 0)) = Some hc"
    using assms unfolding calculate_risk_score_def Let_def
    by (cases "num_of (dict_get factors ''holder_count'' (PInt 0))") simp_all
  obtain tp where tp: "num_of (dict_get factors ''top_10_holdings_pct'' (PInt 0)) = Some tp"
    using assms unfolding calculate_risk_score_def Let_def hc
    by (cases "num_of (dict_get factors ''top_10_holdings_pct'' (PInt 0))") simp_all
  obtain dp where dp: "num_of (dict_get factors ''dev_holdings_pct'' (PInt 0)) = Some dp"
    using assms unfolding calculate_risk_score_def Let_def hc tp
    by (cases "num_of (dict_get factors ''dev_holdings_pct'' (PInt 0))") simp_all
  obtain lu where lu: "num_of (dict_get factors ''liquidity_usd'' (PInt 0)) = Some lu"
    using assms unfolding calculate_risk_score_def Let_def hc tp dp
    by (cases "num_of (dict_get factors ''liquidity_usd'' (PInt 0))") simp_all
  have "calculate_risk_score factors
        = Inr (min ((if \<not> truthy (dict_get factors ''mint_authority_revoked'' (PBool False))
                     then 30 else 0)
                    + (if \<not> truthy (dict_get factors ''freeze_authority_revoked'' (PBool False))
                       then 20 else 0)
                    + holder_count_penalty hc + top_10_penalty tp + dev_holdings_penalty dp
                    + (if \<not> truthy (dict_get factors ''liquidity_locked'' (PBool False))
                       then 20 else 0)
                    + (if lu < 5000 then 10 else 0)) 100)"
    unfolding calculate_risk_score_def Let_def hc tp dp lu by simp
  with assms have seq:
    "s = min ((if \<not> truthy (dict_get factors ''mint_authority_revoked'' (PBool False))
               then 30 else 0)
              + (if \<not> truthy (dict_get factors ''freeze_authority_revoked'' (PBool False))
                 then 20 else 0)
              + holder_count_penalty hc + top_10_penalty tp + dev_holdings_penalty dp
              + (if \<not> truthy (dict_get factors ''liquidity_locked'' (PBool False))
                 then 20 else 0)
              + (if lu < 5000 then 10 else 0)) 100"
    by simp
  show ?thesis
    by (rule exI [of _ hc], rule exI [of _ tp], rule exI [of _ dp], rule exI [of _ lu])
       (intro conjI seq hc lu)
qed

text \<open>
  On any dictionary on which the scorer returns, the penalty of an absent flag, of an
  absent holder count and of an absent liquidity is part of the score.
\<close>

lemma absent_key_penalty:
  assumes "calculate_risk_score factors = Inr s"
  shows "factors ''mint_authority_revoked'' = None \<Longrightarrow> 30 \<le> s"
    and "factors ''freeze_authority_revoked'' = None \<Longrightarrow> 20 \<le> s"
    and "factors ''liquidity_locked'' = None \<Longrightarrow> 20 \<le> s"
    and "factors ''holder_count'' = None \<Longrightarrow> 15 \<le> s"
    and "factors ''liquidity_usd'' = None \<Longrightarrow> 10 \<le> s"
proof -
  from calculate_risk_score_InrD [OF assms] obtain hc tp dp lu where
    s: "s = min ((if \<not> truthy (dict_get factors ''mint_authority_revoked'' (PBool False))
                  then 30 else 0)
                 + (if \<not> truthy (dict_get factors ''freeze_authority_revoked'' (PBool False))
                    then 20 else 0)
                 + holder_count_penalty hc + top_10_penalty tp + dev_holdings_penalty dp
                 + (if \<not> truthy (dict_get factors ''liquidity_locked'' (PBool False))
                    then 20 else 0)
                 + (if lu < 5000 then 10 else 0)) 100"
    and hc: "num_of (dict_get factors ''holder_count'' (PInt 0)) = Some hc"
    and lu: "num_of (dict_get factors ''liquidity_usd'' (PInt 0)) = Some lu"
    by blast
  note nn = penalty_bounds(1) [of hc] penalty_bounds(3) [of tp] penalty_bounds(5) [of dp]
  show "factors ''mint_authority_revoked'' = None \<Longrightarrow> 30 \<le> s"
    using nn unfolding s by (simp add: dict_get_def)
  show "factors ''freeze_authority_revoked'' = None \<Longrightarrow> 20 \<le> s"
    using nn unfolding s by (simp add: dict_get_def)
  show "factors ''liquidity_locked'' = None \<Longrightarrow> 20 \<le> s"
    using nn unfolding s by (simp add: dict_get_def)
  show "factors ''holder_count'' = None \<Longrightarrow> 15 \<le> s"
    using nn hc unfolding s by (auto simp add: dict_get_def holder_count_penalty_def)
  show "factors ''liquidity_usd'' = None \<Longrightarrow> 10 \<le> s"
    using nn lu unfolding s by (auto simp add: dict_get_def)
qed

text \<open>
  Claim C9. An absent key is read as its default: an absent flag as \<^verbatim>\<open>False\<close>, so
  that its penalty is added, and an absent number as 0, for which the holder-count tier
  of 15 and the low-liquidity penalty are added and the two percentage chains add
  nothing. On a typed dictionary with any of the seven keys absent, the score is the
  capped sum of the penalties of the table, taken at the values present and at
  \<^verbatim>\<open>False\<close> and 0 for the absent ones. The empty dictionary therefore scores exactly
  95, and the dictionary with the one key \<^verbatim>\<open>holder_count\<close>, at 200, scores 80. On any
  dictionary on which the scorer returns, the score is at least the penalty of each
  absent flag, of an absent holder count and of an absent liquidity; and adding an
  absent key with its default does not change the result.
\<close>

theorem calculate_risk_score_missing_fields:
  "calculate_risk_score (partial_factors m f h t d l u)
     = Inr (min (penalty_sum (case m of None \<Rightarrow> False | Some b \<Rightarrow> b)
                   (case f of None \<Rightarrow> False | Some b \<Rightarrow> b)
                   (case h of None \<Rightarrow> 0 | Some i \<Rightarrow> i)
                   (case t of None \<Rightarrow> 0 | Some x \<Rightarrow> x)
                   (case d of None \<Rightarrow> 0 | Some x \<Rightarrow> x)
                   (case l of None \<Rightarrow> False | Some b \<Rightarrow> b)
                   (case u of None \<Rightarrow> 0 | Some x \<Rightarrow> x)) 100)
   \<and> partial_factors (Some m') (Some f') (Some h') (Some t') (Some d') (Some l') (Some u')
       = risk_factors m' f' h' t' d' l' u'
   \<and> partial_factors None None None None None None None = Map.empty
   \<and> calculate_risk_score Map.empty = Inr 95
   \<and> partial_factors None None (Some 200) None None None None
       = [''holder_count'' \<mapsto> PInt 200]
   \<and> calculate_risk_score [''holder_count'' \<mapsto> PInt 200] = Inr 80
   \<and> holder_count_penalty 0 = 15 \<and> top_10_penalty 0 = 0 \<and> dev_holdings_penalty 0 = 0
   \<and> (calculate_risk_score factors = Inr s \<longrightarrow>
        (factors ''mint_authority_revoked'' = None \<longrightarrow> 30 \<le> s)
        \<and> (factors ''freeze_authority_revoked'' = None \<longrightarrow> 20 \<le> s)
        \<and> (factors ''liquidity_locked'' = None \<longrightarrow> 20 \<le> s)
        \<and> (factors ''holder_count'' = None \<longrightarrow> 15 \<le> s)
        \<and> (factors ''liquidity_usd'' = None \<longrightarrow> 10 \<le> s))
   \<and> (factors k = None
        \<and> (k = ''mint_authority_revoked'' \<or> k = ''freeze_authority_revoked''
             \<or> k = ''liquidity_locked'')
        \<longrightarrow> calculate_risk_score (factors(k \<mapsto> PBool False)) = calculate_risk_score factors)
   \<and> (factors k = None
        \<and> (k = ''holder_count'' \<or> k = ''top_10_holdings_pct'' \<or> k = ''dev_holdings_pct''
             \<or> k = ''liquidity_usd'')
        \<longrightarrow> calculate_risk_score (factors(k \<mapsto> PInt 0)) = calculate_risk_score factors)"
proof -
  have e: "calculate_risk_score Map.empty = Inr 95"
    by (simp add: calculate_risk_score_def dict_get_def holder_count_penalty_def
          top_10_penalty_def dev_holdings_penalty_def)
  have e200: "calculate_risk_score [''holder_count'' \<mapsto> PInt 200] = Inr 80"
    by (simp add: calculate_risk_score_def dict_get_def holder_count_penalty_def
          top_10_penalty_def dev_holdings_penalty_def)
  have p1: "holder_count_penalty 0 = 15" by (simp add: holder_count_penalty_def)
  have p2: "top_10_penalty 0 = 0" by (simp add: top_10_penalty_def)
  have p3: "dev_holdings_penalty 0 = 0" by (simp add: dev_holdings_penalty_def)
  have lb: "calculate_risk_score factors = Inr s \<longrightarrow>
        (factors ''mint_authority_revoked'' = None \<longrightarrow> 30 \<le> s)
        \<and> (factors ''freeze_authority_revoked'' = None \<longrightarrow> 20 \<le> s)
        \<and> (factors ''liquidity_locked'' = None \<longrightarrow> 20 \<le> s)
        \<and> (factors ''holder_count'' = None \<longrightarrow> 15 \<le> s)
        \<and> (factors ''liquidity_usd'' = None \<longrightarrow> 10 \<le> s)"
    by (intro impI conjI) (rule absent_key_penalty, assumption, assumption)+
  have a: "factors k = None
        \<and> (k = ''mint_authority_revoked'' \<or> k = ''freeze_authority_revoked''
             \<or> k = ''liquidity_locked'')
        \<longrightarrow> calculate_risk_score (factors(k \<mapsto> PBool False)) = calculate_risk_score factors"
  proof (rule impI)
    assume h: "factors k = None
        \<and> (k = ''mint_authority_revoked'' \<or> k = ''freeze_authority_revoked''
             \<or> k = ''liquidity_locked'')"
    show "calculate_risk_score (factors(k \<mapsto> PBool False)) = calculate_risk_score factors"
      by (rule calculate_risk_score_flag_default [of factors k, OF conjunct1 [OF h] conjunct2 [OF h]])
  qed
  have b: "factors k = None
        \<and> (k = ''holder_count'' \<or> k = ''top_10_holdings_pct'' \<or> k = ''dev_holdings_pct''
             \<or> k = ''liquidity_usd'')
        \<longrightarrow> calculate_risk_score (factors(k \<mapsto> PInt 0)) = calculate_risk_score factors"
  proof (rule impI)
    assume h: "factors k = None
        \<and> (k = ''holder_count'' \<or> k = ''top_10_holdings_pct'' \<or> k = ''dev_holdings_pct''
             \<or> k = ''liquidity_usd'')"
    show "calculate_risk_score (factors(k \<mapsto> PInt 0)) = calculate_risk_score factors"
      by (rule calculate_risk_score_number_default [of factors k, OF conjunct1 [OF h] conjunct2 [OF h]])
  qed
  show ?thesis
    by (intro conjI calculate_risk_score_partial_factors partial_factors_all
          partial_factors_none e partial_factors_holders e200 p1 p2 p3 lb a b)
qed

theorem calculate_risk_score_missing_fields_witness:
  "calculate_risk_score [''holder_count'' \<mapsto> PInt 200] = Inr 80
   \<and> [''holder_count'' \<mapsto> PInt 200] ''mint_authority_revoked'' = None
   \<and> [''holder_count'' \<mapsto> PInt 200] ''freeze_authority_revoked'' = None
   \<and> [''holder_count'' \<mapsto> PInt 200] ''liquidity_locked'' = None
   \<and> (30 :: real) \<le> 80
   \<and> calculate_risk_score ([''holder_count'' \<mapsto> PInt 200](''liquidity_locked'' \<mapsto> PBool False))
       = calculate_risk_score [''holder_count'' \<mapsto> PInt 200]
   \<and> [''holder_count'' \<mapsto> PInt 200] ''liquidity_usd'' = None
   \<and> calculate_risk_score ([''holder_count'' \<mapsto> PInt 200](''liquidity_usd'' \<mapsto> PInt 0))
       = calculate_risk_score [''holder_count'' \<mapsto> PInt 200]"
  using calculate_risk_score_missing_fields
      [where factors = "[''holder_count'' \<mapsto> PInt 200]" and k = "''liquidity_locked''"
         and s = 80]
    calculate_risk_score_missing_fields
      [where factors = "[''holder_count'' \<mapsto> PInt 200]" and k = "''liquidity_usd''"
         and s = 80]
  by simp

section \<open>Properties of the pattern detector\<close>

lemma type_test_has_kind: "(dict_get tx ''type'' PNone = PStr k) = has_kind k tx"
  by (auto simp: dict_get_def has_kind_def split: option.splits)

text \<open>The body of the \<^verbatim>\<open>try\<close> block in terms of the sum: when it is returned.\<close>

lemma detect_try_returned:
  assumes "lp_sum fsum h = Inr t"
  shows "detect_try fsum h
           \<lparr>is_suspicious = False, risk_level = LOW, detected_patterns = [], confidence = 0\<rparr>
     = (\<lparr>is_suspicious = exceeds_50 t,
         risk_level = (if exceeds_50 t then HIGH
                       else if dev_sell_count h > 3 then MEDIUM else LOW),
         detected_patterns =
           (if dev_sell_count h > 3 then [''Multiple dev wallet sells detected''] else [])
           @ (if exceeds_50 t then [''Significant liquidity removal''] else []),
         confidence = min (real (length
           ((if dev_sell_count h > 3 then [''Multiple dev wallet sells detected''] else [])
           @ (if exceeds_50 t then [''Significant liquidity removal''] else []))) * 0.3) 1\<rparr>,
        None)"
proof (cases "filter (has_kind ''lp_remove'') h = []")
  case True
  with assms have "t = NInt 0" by (simp add: lp_sum_def)
  with True show ?thesis
    by (simp add: detect_try_def type_test_has_kind dev_sell_count_def
          set_confidence_def Let_def)
next
  case False
  with assms show ?thesis
    by (simp add: detect_try_def type_test_has_kind dev_sell_count_def
          set_confidence_def Let_def lp_sum_def)
qed

text \<open>When the sum raises: the handler returns what had been written.\<close>

lemma detect_try_raised:
  assumes "lp_sum fsum h = Inl e"
  shows "detect_try fsum h
           \<lparr>is_suspicious = False, risk_level = LOW, detected_patterns = [], confidence = 0\<rparr>
     = (\<lparr>is_suspicious = False,
         risk_level = (if dev_sell_count h > 3 then MEDIUM else LOW),
         detected_patterns =
           (if dev_sell_count h > 3 then [''Multiple dev wallet sells detected''] else []),
         confidence = 0\<rparr>,
        Some e)"
proof -
  have "filter (has_kind ''lp_remove'') h \<noteq> []"
    using assms by (auto simp: lp_sum_def)
  with assms show ?thesis
    by (simp add: detect_try_def type_test_has_kind dev_sell_count_def Let_def lp_sum_def)
qed

lemma detect_rug_patterns_returned:
  assumes "lp_sum fsum h = Inr t"
  shows "detect_rug_patterns fsum h
     = \<lparr>is_suspicious = exceeds_50 t,
        risk_level = (if exceeds_50 t then HIGH
                      else if dev_sell_count h > 3 then MEDIUM else LOW),
        detected_patterns =
          (if dev_sell_count h > 3 then [''Multiple dev wallet sells detected''] else [])
          @ (if exceeds_50 t then [''Significant liquidity removal''] else []),
        confidence = min (real (length
          ((if dev_sell_count h > 3 then [''Multiple dev wallet sells detected''] else [])
          @ (if exceeds_50 t then [''Significant liquidity removal''] else []))) * 0.3) 1\<rparr>"
    and "raised fsum h = None"
    and "sum_exceeds_50 fsum h = exceeds_50 t"
  by (simp_all add: detect_rug_patterns_def raised_def sum_exceeds_50_def
        detect_try_returned [OF assms] assms)

lemma detect_rug_patterns_raised:
  assumes "lp_sum fsum h = Inl e"
  shows "detect_rug_patterns fsum h
     = \<lparr>is_suspicious = False,
        risk_level = (if dev_sell_count h > 3 then MEDIUM else LOW),
        detected_patterns =
          (if dev_sell_count h > 3 then [''Multiple dev wallet sells detected''] else []),
        confidence = 0\<rparr>"
    and "raised fsum h = Some e"
    and "sum_exceeds_50 fsum h = False"
  by (simp_all add: detect_rug_patterns_def raised_def sum_exceeds_50_def
        detect_try_raised [OF assms] assms)

text \<open>A sum of integers is the exact integer sum, whatever the float arithmetic.\<close>

lemma py_sum_ints:
  "list_all is_int vs \<Longrightarrow>
     \<exists>s. py_sum fsum acc vs = Inr (NInt s)
       \<and> real_of_int s
           = real_of_int acc
             + sum_list (map (\<lambda>v. case num_of v of Some x \<Rightarrow> x | None \<Rightarrow> 0) vs)"
proof (induction vs arbitrary: acc)
  case Nil
  show ?case by simp
next
  case (Cons v vs)
  from Cons.prems have rest: "list_all is_int vs" by simp
  from Cons.prems have "is_int v" by simp
  then show ?case
  proof (cases v)
    case (PInt i)
    from Cons.IH [OF rest, of "acc + i"] PInt show ?thesis by auto
  next
    case (PBool b)
    from Cons.IH [OF rest, of "acc + (if b then 1 else 0)"] PBool show ?thesis by auto
  qed simp_all
qed

lemma lp_sum_ints:
  assumes "int_amounts h"
  shows "\<exists>s. lp_sum fsum h = Inr (NInt s) \<and> real_of_int s = lp_removed_total h"
proof -
  have "list_all is_int
          (map (\<lambda>tx. dict_get tx ''amount'' (PInt 0)) (filter (has_kind ''lp_remove'') h))"
    using assms by (simp add: int_amounts_def list_all_iff)
  from py_sum_ints [OF this, of fsum 0] show ?thesis
    by (simp add: lp_sum_def lp_removed_total_def amount_of_def [abs_def] comp_def)
qed



lemma scenario_lp_only:
  "detect_rug_patterns fsum [tx_record ''lp_remove'' 60]
   = \<lparr>is_suspicious = True, risk_level = HIGH,
      detected_patterns = [''Significant liquidity removal''], confidence = 0.3\<rparr>"
  by code_simp


lemma scenario_four_dev_sells:
  "detect_rug_patterns fsum [tx_record ''dev_sell'' 1, tx_record ''dev_sell'' 2,
      tx_record ''dev_sell'' 3, tx_record ''dev_sell'' 4]
   = \<lparr>is_suspicious = False, risk_level = MEDIUM,
      detected_patterns = [''Multiple dev wallet sells detected''], confidence = 0.3\<rparr>"
  by code_simp

lemma scenario_three_dev_sells:
  "detect_rug_patterns fsum [tx_record ''dev_sell'' 1, tx_record ''dev_sell'' 2,
      tx_record ''dev_sell'' 3]
   = \<lparr>is_suspicious = False, risk_level = LOW, detected_patterns = [], confidence = 0\<rparr>"
  by code_simp

lemma scenario_empty:
  "detect_rug_patterns fsum []
   = \<lparr>is_suspicious = False, risk_level = LOW, detected_patterns = [], confidence = 0\<rparr>"
  by code_simp

lemma scenario_safe_token:
  "detect_rug_patterns fsum [tx_record ''buy'' 100, tx_record ''sell'' 50]
   = \<lparr>is_suspicious = False, risk_level = LOW, detected_patterns = [], confidence = 0\<rparr>"
  by code_simp

lemma scenario_facts:
  "int_amounts [tx_record ''dev_sell'' 1000, tx_record ''dev_sell'' 2000,
      tx_record ''dev_sell'' 10, tx_record ''dev_sell'' 20, tx_record ''lp_remove'' 60]"
  "dev_sell_count [tx_record ''dev_sell'' 1000, tx_record ''dev_sell'' 2000,
      tx_record ''dev_sell'' 10, tx_record ''dev_sell'' 20, tx_record ''lp_remove'' 60] = 4"
  "lp_removed_total [tx_record ''dev_sell'' 1000, tx_record ''dev_sell'' 2000,
      tx_record ''dev_sell'' 10, tx_record ''dev_sell'' 20, tx_record ''lp_remove'' 60] = 60"
  "int_amounts [tx_record ''lp_remove'' 60]"
  "dev_sell_count [tx_record ''lp_remove'' 60] = 0"
  "lp_removed_total [tx_record ''lp_remove'' 60] = 60"
  "int_amounts [tx_record ''dev_sell'' 1, tx_record ''dev_sell'' 2,
      tx_record ''dev_sell'' 3, tx_record ''dev_sell'' 4]"
  "dev_sell_count [tx_record ''dev_sell'' 1, tx_record ''dev_sell'' 2,
      tx_record ''dev_sell'' 3, tx_record ''dev_sell'' 4] = 4"
  by code_simp+

lemma scenario_sums:
  "sum_exceeds_50 fsum [tx_record ''dev_sell'' 1000, tx_record ''dev_sell'' 2000,
      tx_record ''dev_sell'' 10, tx_record ''dev_sell'' 20, tx_record ''lp_remove'' 60]"
  "sum_exceeds_50 fsum [tx_record ''lp_remove'' 60]"
  "raised fsum [tx_record ''dev_sell'' 1, tx_record ''dev_sell'' 2,
      tx_record ''dev_sell'' 3, tx_record ''dev_sell'' 4,
      [''type'' \<mapsto> PStr ''lp_remove'', ''amount'' \<mapsto> PStr ''all'']] = Some TypeError"
  by code_simp+

text \<open>
  Two histories on which the sum raises. In the first the amount of the \<^verbatim>\<open>lp_remove\<close>
  record is a string (\<^verbatim>\<open>TypeError\<close>). In the second the amounts are numbers: the
  integer \<open>10 ^ 400\<close> followed by the float 1.5, so that the integer has to be converted
  to a float and is too large (\<^verbatim>\<open>OverflowError\<close>). With four dev sells in front, the
  sum raises after the dev-sell pattern has been written; the handler returns the
  dictionary as it stands, with the confidence still 0.
\<close>

lemma scenario_type_error:
  "detect_try fsum [[''type'' \<mapsto> PStr ''lp_remove'', ''amount'' \<mapsto> PStr ''all'']]
     \<lparr>is_suspicious = False, risk_level = LOW, detected_patterns = [], confidence = 0\<rparr>
   = (\<lparr>is_suspicious = False, risk_level = LOW, detected_patterns = [], confidence = 0\<rparr>,
      Some TypeError)"
  by code_simp

lemma scenario_overflow:
  "detect_try fsum [[''type'' \<mapsto> PStr ''lp_remove'', ''amount'' \<mapsto> PInt (10 ^ 400)],
                    [''type'' \<mapsto> PStr ''lp_remove'', ''amount'' \<mapsto> PFloat 1.5]]
     \<lparr>is_suspicious = False, risk_level = LOW, detected_patterns = [], confidence = 0\<rparr>
   = (\<lparr>is_suspicious = False, risk_level = LOW, detected_patterns = [], confidence = 0\<rparr>,
      Some OverflowError)"
  by code_simp

lemma scenario_overflow_total:
  "numeric_amounts [[''type'' \<mapsto> PStr ''lp_remove'', ''amount'' \<mapsto> PInt (10 ^ 400)],
                    [''type'' \<mapsto> PStr ''lp_remove'', ''amount'' \<mapsto> PFloat 1.5]]"
  "50 < lp_removed_total
          [[''type'' \<mapsto> PStr ''lp_remove'', ''amount'' \<mapsto> PInt (10 ^ 400)],
           [''type'' \<mapsto> PStr ''lp_remove'', ''amount'' \<mapsto> PFloat 1.5]]"
  by code_simp+

lemma scenario_dev_sells_overflow:
  "detect_try fsum [tx_record ''dev_sell'' 1, tx_record ''dev_sell'' 2,
      tx_record ''dev_sell'' 3, tx_record ''dev_sell'' 4,
      [''type'' \<mapsto> PStr ''lp_remove'', ''amount'' \<mapsto> PInt (10 ^ 400)],
      [''type'' \<mapsto> PStr ''lp_remove'', ''amount'' \<mapsto> PFloat 1.5]]
     \<lparr>is_suspicious = False, risk_level = LOW, detected_patterns = [], confidence = 0\<rparr>
   = (\<lparr>is_suspicious = False, risk_level = MEDIUM,
       detected_patterns = [''Multiple dev wallet sells detected''], confidence = 0\<rparr>,
      Some OverflowError)"
  by code_simp

lemma scenario_dev_sells_overflow_facts:
  "numeric_amounts [tx_record ''dev_sell'' 1, tx_record ''dev_sell'' 2,
      tx_record ''dev_sell'' 3, tx_record ''dev_sell'' 4,
      [''type'' \<mapsto> PStr ''lp_remove'', ''amount'' \<mapsto> PInt (10 ^ 400)],
      [''type'' \<mapsto> PStr ''lp_remove'', ''amount'' \<mapsto> PFloat 1.5]]"
  "dev_sell_count [tx_record ''dev_sell'' 1, tx_record ''dev_sell'' 2,
      tx_record ''dev_sell'' 3, tx_record ''dev_sell'' 4,
      [''type'' \<mapsto> PStr ''lp_remove'', ''amount'' \<mapsto> PInt (10 ^ 400)],
      [''type'' \<mapsto> PStr ''lp_remove'', ''amount'' \<mapsto> PFloat 1.5]] = 4"
  by code_simp+

lemma filter_filter_weaker:
  "(\<And>x. P x \<Longrightarrow> Q x) \<Longrightarrow> filter P (filter Q xs) = filter P xs"
  by (induction xs) auto

lemma restricted_history:
  "dev_sell_count (filter (\<lambda>tx. has_kind ''dev_sell'' tx \<or> has_kind ''lp_remove'' tx) h)
     = dev_sell_count h"
  "lp_sum fsum (filter (\<lambda>tx. has_kind ''dev_sell'' tx \<or> has_kind ''lp_remove'' tx) h)
     = lp_sum fsum h"
  by (simp_all add: dev_sell_count_def lp_sum_def filter_filter_weaker del: filter_filter)

text \<open>
  Claim C8. Records that are neither \<^verbatim>\<open>dev_sell\<close> nor \<^verbatim>\<open>lp_remove\<close> (whatever their
  kind, also when the key is absent or not a string) do not change the verdict: the
  verdict on a history is the verdict on its sub-history of \<^verbatim>\<open>dev_sell\<close> and
  \<^verbatim>\<open>lp_remove\<close> records. A history of a buy and a sell gets the LOW verdict.
\<close>

theorem detect_rug_patterns_ignores_other_kinds:
  "detect_rug_patterns fsum h
     = detect_rug_patterns fsum
         (filter (\<lambda>tx. has_kind ''dev_sell'' tx \<or> has_kind ''lp_remove'' tx) h)
   \<and> detect_rug_patterns fsum [tx_record ''buy'' 100, tx_record ''sell'' 50]
       = \<lparr>is_suspicious = False, risk_level = LOW, detected_patterns = [], confidence = 0\<rparr>"
proof (cases "lp_sum fsum h")
  case (Inl e)
  then have "lp_sum fsum (filter (\<lambda>tx. has_kind ''dev_sell'' tx \<or> has_kind ''lp_remove'' tx) h)
             = Inl e"
    by (simp add: restricted_history)
  from detect_rug_patterns_raised(1) [OF this] detect_rug_patterns_raised(1) [OF Inl]
  show ?thesis by (simp add: restricted_history scenario_safe_token)
next
  case (Inr t)
  then have "lp_sum fsum (filter (\<lambda>tx. has_kind ''dev_sell'' tx \<or> has_kind ''lp_remove'' tx) h)
             = Inr t"
    by (simp add: restricted_history)
  from detect_rug_patterns_returned(1) [OF this] detect_rug_patterns_returned(1) [OF Inr]
  show ?thesis by (simp add: restricted_history scenario_safe_token)
qed

text \<open>
  Claim C7. The function returns a verdict on every history, also where the body of its
  \<^verbatim>\<open>try\<close> block raises: the last four conjuncts show a history on which the sum raises
  \<^verbatim>\<open>TypeError\<close>, one on which it raises \<^verbatim>\<open>OverflowError\<close>, and the verdicts that are
  returned all the same. On the empty history, and whenever the list of detected
  patterns is empty, the verdict is LOW, not suspicious, no patterns, confidence 0.
\<close>

theorem detect_rug_patterns_no_pattern:
  "detect_rug_patterns fsum []
     = \<lparr>is_suspicious = False, risk_level = LOW, detected_patterns = [], confidence = 0\<rparr>
   \<and> (detected_patterns (detect_rug_patterns fsum h) = [] \<longrightarrow>
        detect_rug_patterns fsum h
          = \<lparr>is_suspicious = False, risk_level = LOW, detected_patterns = [], confidence = 0\<rparr>)
   \<and> snd (detect_try fsum [[''type'' \<mapsto> PStr ''lp_remove'', ''amount'' \<mapsto> PStr ''all'']]
           \<lparr>is_suspicious = False, risk_level = LOW, detected_patterns = [], confidence = 0\<rparr>)
       = Some TypeError
   \<and> detect_rug_patterns fsum
         [[''type'' \<mapsto> PStr ''lp_remove'', ''amount'' \<mapsto> PStr ''all'']]
       = \<lparr>is_suspicious = False, risk_level = LOW, detected_patterns = [], confidence = 0\<rparr>
   \<and> snd (detect_try fsum
             [[''type'' \<mapsto> PStr ''lp_remove'', ''amount'' \<mapsto> PInt (10 ^ 400)],
              [''type'' \<mapsto> PStr ''lp_remove'', ''amount'' \<mapsto> PFloat 1.5]]
           \<lparr>is_suspicious = False, risk_level = LOW, detected_patterns = [], confidence = 0\<rparr>)
       = Some OverflowError
   \<and> detect_rug_patterns fsum
         [[''type'' \<mapsto> PStr ''lp_remove'', ''amount'' \<mapsto> PInt (10 ^ 400)],
          [''type'' \<mapsto> PStr ''lp_remove'', ''amount'' \<mapsto> PFloat 1.5]]
       = \<lparr>is_suspicious = False, risk_level = LOW, detected_patterns = [], confidence = 0\<rparr>"
proof -
  have r1: "snd (detect_try fsum [[''type'' \<mapsto> PStr ''lp_remove'', ''amount'' \<mapsto> PStr ''all'']]
           \<lparr>is_suspicious = False, risk_level = LOW, detected_patterns = [], confidence = 0\<rparr>)
       = Some TypeError"
    by code_simp
  have v1: "detect_rug_patterns fsum
         [[''type'' \<mapsto> PStr ''lp_remove'', ''amount'' \<mapsto> PStr ''all'']]
       = \<lparr>is_suspicious = False, risk_level = LOW, detected_patterns = [], confidence = 0\<rparr>"
    by code_simp
  have r2: "snd (detect_try fsum
             [[''type'' \<mapsto> PStr ''lp_remove'', ''amount'' \<mapsto> PInt (10 ^ 400)],
              [''type'' \<mapsto> PStr ''lp_remove'', ''amount'' \<mapsto> PFloat 1.5]]
           \<lparr>is_suspicious = False, risk_level = LOW, detected_patterns = [], confidence = 0\<rparr>)
       = Some OverflowError"
    by code_simp
  have v2: "detect_rug_patterns fsum
         [[''type'' \<mapsto> PStr ''lp_remove'', ''amount'' \<mapsto> PInt (10 ^ 400)],
          [''type'' \<mapsto> PStr ''lp_remove'', ''amount'' \<mapsto> PFloat 1.5]]
       = \<lparr>is_suspicious = False, risk_level = LOW, detected_patterns = [], confidence = 0\<rparr>"
    by code_simp
  have none: "detected_patterns (detect_rug_patterns fsum h) = [] \<longrightarrow>
        detect_rug_patterns fsum h
          = \<lparr>is_suspicious = False, risk_level = LOW, detected_patterns = [], confidence = 0\<rparr>"
  proof (cases "lp_sum fsum h")
    case (Inl e)
    show ?thesis
      by (cases "3 < dev_sell_count h")
        (simp_all add: detect_rug_patterns_raised(1) [OF Inl])
  next
    case (Inr t)
    show ?thesis
      by (cases "3 < dev_sell_count h"; cases "exceeds_50 t")
        (simp_all add: detect_rug_patterns_returned(1) [OF Inr])
  qed
  show ?thesis by (intro conjI scenario_empty none r1 v1 r2 v2)
qed

theorem detect_rug_patterns_no_pattern_witness:
  "\<forall>fsum.
     detected_patterns (detect_rug_patterns fsum [tx_record ''buy'' 100, tx_record ''sell'' 50])
       = []
     \<and> detect_rug_patterns fsum [tx_record ''buy'' 100, tx_record ''sell'' 50]
         = \<lparr>is_suspicious = False, risk_level = LOW, detected_patterns = [], confidence = 0\<rparr>"
proof (rule allI)
  fix fsum
  show "detected_patterns (detect_rug_patterns fsum [tx_record ''buy'' 100, tx_record ''sell'' 50])
       = []
     \<and> detect_rug_patterns fsum [tx_record ''buy'' 100, tx_record ''sell'' 50]
         = \<lparr>is_suspicious = False, risk_level = LOW, detected_patterns = [], confidence = 0\<rparr>"
    using detect_rug_patterns_no_pattern
            [of fsum "[tx_record ''buy'' 100, tx_record ''sell'' 50]"]
    by (simp add: scenario_safe_token)
qed




text \<open>
  Claim C3, as the code has it. On every history the pattern "Multiple dev wallet sells
  detected" is in the list exactly when there are strictly more than 3 \<^verbatim>\<open>dev_sell\<close>
  records, and then the level is at least MEDIUM: the level is HIGH when the liquidity
  pattern fires (the dev-sell step does not lower it), else MEDIUM when the dev-sell
  pattern fires, else LOW. When the dev-sell pattern is the only one, the level is
  MEDIUM and the verdict is not suspicious. The confidence is written by the last
  statement of the \<^verbatim>\<open>try\<close> block: when the block does not raise, it is
  min(0.3 * number of detected patterns, 1), so 0.3 with the dev-sell pattern alone;
  when the sum of the \<^verbatim>\<open>lp_remove\<close> amounts raises, it stays 0, also with the dev-sell
  pattern in the list. On integer amounts nothing is raised. Four dev sells give the
  pattern, three give none.
\<close>

theorem dev_sell_pattern:
  "(''Multiple dev wallet sells detected''
       \<in> set (detected_patterns (detect_rug_patterns fsum h)))
      = (3 < dev_sell_count h)
   \<and> (3 < dev_sell_count h \<longrightarrow>
        level_rank MEDIUM \<le> level_rank (risk_level (detect_rug_patterns fsum h)))
   \<and> risk_level (detect_rug_patterns fsum h)
       = (if ''Significant liquidity removal''
               \<in> set (detected_patterns (detect_rug_patterns fsum h)) then HIGH
          else if 3 < dev_sell_count h then MEDIUM else LOW)
   \<and> (detected_patterns (detect_rug_patterns fsum h) = [''Multiple dev wallet sells detected'']
        \<longrightarrow> risk_level (detect_rug_patterns fsum h) = MEDIUM
            \<and> \<not> is_suspicious (detect_rug_patterns fsum h))
   \<and> (raised fsum h = None \<longrightarrow>
        (detected_patterns (detect_rug_patterns fsum h)
           = [''Multiple dev wallet sells detected'']
         \<longrightarrow> confidence (detect_rug_patterns fsum h) = 0.3)
        \<and> confidence (detect_rug_patterns fsum h)
            = min (0.3 * real (length (detected_patterns (detect_rug_patterns fsum h)))) 1.0)
   \<and> (raised fsum h \<noteq> None \<longrightarrow>
        confidence (detect_rug_patterns fsum h) = 0
        \<and> detected_patterns (detect_rug_patterns fsum h)
            = (if 3 < dev_sell_count h then [''Multiple dev wallet sells detected''] else []))
   \<and> (int_amounts h \<longrightarrow> raised fsum h = None)
   \<and> detect_rug_patterns fsum [tx_record ''dev_sell'' 1, tx_record ''dev_sell'' 2,
        tx_record ''dev_sell'' 3, tx_record ''dev_sell'' 4]
      = \<lparr>is_suspicious = False, risk_level = MEDIUM,
         detected_patterns = [''Multiple dev wallet sells detected''], confidence = 0.3\<rparr>
   \<and> detect_rug_patterns fsum [tx_record ''dev_sell'' 1, tx_record ''dev_sell'' 2,
        tx_record ''dev_sell'' 3]
      = \<lparr>is_suspicious = False, risk_level = LOW, detected_patterns = [], confidence = 0\<rparr>"
proof (cases "lp_sum fsum h")
  case (Inl e)
  have ni: "\<not> int_amounts h"
    using lp_sum_ints [of h fsum] Inl by auto
  show ?thesis
    by (cases "3 < dev_sell_count h")
      (simp_all add: detect_rug_patterns_raised [OF Inl] ni scenario_four_dev_sells
         scenario_three_dev_sells)
next
  case (Inr t)
  show ?thesis
    by (cases "3 < dev_sell_count h"; cases "exceeds_50 t")
      (simp_all add: detect_rug_patterns_returned [OF Inr] scenario_four_dev_sells
         scenario_three_dev_sells)
qed

theorem dev_sell_pattern_witness:
  "\<forall>fsum.
     3 < dev_sell_count [tx_record ''dev_sell'' 1, tx_record ''dev_sell'' 2,
          tx_record ''dev_sell'' 3, tx_record ''dev_sell'' 4]
     \<and> int_amounts [tx_record ''dev_sell'' 1, tx_record ''dev_sell'' 2,
          tx_record ''dev_sell'' 3, tx_record ''dev_sell'' 4]
     \<and> raised fsum [tx_record ''dev_sell'' 1, tx_record ''dev_sell'' 2,
          tx_record ''dev_sell'' 3, tx_record ''dev_sell'' 4] = None
     \<and> detected_patterns (detect_rug_patterns fsum [tx_record ''dev_sell'' 1,
          tx_record ''dev_sell'' 2, tx_record ''dev_sell'' 3, tx_record ''dev_sell'' 4])
         = [''Multiple dev wallet sells detected'']
     \<and> level_rank MEDIUM \<le> level_rank (risk_level (detect_rug_patterns fsum
          [tx_record ''dev_sell'' 1, tx_record ''dev_sell'' 2,
           tx_record ''dev_sell'' 3, tx_record ''dev_sell'' 4]))
     \<and> confidence (detect_rug_patterns fsum [tx_record ''dev_sell'' 1,
          tx_record ''dev_sell'' 2, tx_record ''dev_sell'' 3, tx_record ''dev_sell'' 4]) = 0.3
     \<and> raised fsum [tx_record ''dev_sell'' 1, tx_record ''dev_sell'' 2,
          tx_record ''dev_sell'' 3, tx_record ''dev_sell'' 4,
          [''type'' \<mapsto> PStr ''lp_remove'', ''amount'' \<mapsto> PStr ''all'']] \<noteq> None
     \<and> confidence (detect_rug_patterns fsum [tx_record ''dev_sell'' 1,
          tx_record ''dev_sell'' 2, tx_record ''dev_sell'' 3, tx_record ''dev_sell'' 4,
          [''type'' \<mapsto> PStr ''lp_remove'', ''amount'' \<mapsto> PStr ''all'']]) = 0"
proof (rule allI)
  fix fsum
  show "3 < dev_sell_count [tx_record ''dev_sell'' 1, tx_record ''dev_sell'' 2,
          tx_record ''dev_sell'' 3, tx_record ''dev_sell'' 4]
     \<and> int_amounts [tx_record ''dev_sell'' 1, tx_record ''dev_sell'' 2,
          tx_record ''dev_sell'' 3, tx_record ''dev_sell'' 4]
     \<and> raised fsum [tx_record ''dev_sell'' 1, tx_record ''dev_sell'' 2,
          tx_record ''dev_sell'' 3, tx_record ''dev_sell'' 4] = None
     \<and> detected_patterns (detect_rug_patterns fsum [tx_record ''dev_sell'' 1,
          tx_record ''dev_sell'' 2, tx_record ''dev_sell'' 3, tx_record ''dev_sell'' 4])
         = [''Multiple dev wallet sells detected'']
     \<and> level_rank MEDIUM \<le> level_rank (risk_level (detect_rug_patterns fsum
          [tx_record ''dev_sell'' 1, tx_record ''dev_sell'' 2,
           tx_record ''dev_sell'' 3, tx_record ''dev_sell'' 4]))
     \<and> confidence (detect_rug_patterns fsum [tx_record ''dev_sell'' 1,
          tx_record ''dev_sell'' 2, tx_record ''dev_sell'' 3, tx_record ''dev_sell'' 4]) = 0.3
     \<and> raised fsum [tx_record ''dev_sell'' 1, tx_record ''dev_sell'' 2,
          tx_record ''dev_sell'' 3, tx_record ''dev_sell'' 4,
          [''type'' \<mapsto> PStr ''lp_remove'', ''amount'' \<mapsto> PStr ''all'']] \<noteq> None
     \<and> confidence (detect_rug_patterns fsum [tx_record ''dev_sell'' 1,
          tx_record ''dev_sell'' 2, tx_record ''dev_sell'' 3, tx_record ''dev_sell'' 4,
          [''type'' \<mapsto> PStr ''lp_remove'', ''amount'' \<mapsto> PStr ''all'']]) = 0"
    using dev_sell_pattern [of fsum "[tx_record ''dev_sell'' 1, tx_record ''dev_sell'' 2,
          tx_record ''dev_sell'' 3, tx_record ''dev_sell'' 4]"]
      dev_sell_pattern [of fsum "[tx_record ''dev_sell'' 1, tx_record ''dev_sell'' 2,
          tx_record ''dev_sell'' 3, tx_record ''dev_sell'' 4,
          [''type'' \<mapsto> PStr ''lp_remove'', ''amount'' \<mapsto> PStr ''all'']]"]
    by (simp add: scenario_facts scenario_sums)
qed

text \<open>
  Against claim C3 as it is written. Four dev sells followed by the \<^verbatim>\<open>lp_remove\<close>
  amounts \<open>10 ^ 400\<close> (an integer) and 1.5 (a float): the amounts are numbers, the
  dev-sell pattern is the only pattern detected and the level is MEDIUM, but the sum
  raises before the confidence is written, so the confidence is 0 and not 0.3, and it
  is not min(0.3 * number of detected patterns, 1).
\<close>

theorem dev_sell_confidence_overflow:
  "\<forall>fsum.
     numeric_amounts [tx_record ''dev_sell'' 1, tx_record ''dev_sell'' 2,
        tx_record ''dev_sell'' 3, tx_record ''dev_sell'' 4,
        [''type'' \<mapsto> PStr ''lp_remove'', ''amount'' \<mapsto> PInt (10 ^ 400)],
        [''type'' \<mapsto> PStr ''lp_remove'', ''amount'' \<mapsto> PFloat 1.5]]
     \<and> detected_patterns (detect_rug_patterns fsum [tx_record ''dev_sell'' 1,
          tx_record ''dev_sell'' 2, tx_record ''dev_sell'' 3, tx_record ''dev_sell'' 4,
          [''type'' \<mapsto> PStr ''lp_remove'', ''amount'' \<mapsto> PInt (10 ^ 400)],
          [''type'' \<mapsto> PStr ''lp_remove'', ''amount'' \<mapsto> PFloat 1.5]])
         = [''Multiple dev wallet sells detected'']
     \<and> risk_level (detect_rug_patterns fsum [tx_record ''dev_sell'' 1,
          tx_record ''dev_sell'' 2, tx_record ''dev_sell'' 3, tx_record ''dev_sell'' 4,
          [''type'' \<mapsto> PStr ''lp_remove'', ''amount'' \<mapsto> PInt (10 ^ 400)],
          [''type'' \<mapsto> PStr ''lp_remove'', ''amount'' \<mapsto> PFloat 1.5]]) = MEDIUM
     \<and> confidence (detect_rug_patterns fsum [tx_record ''dev_sell'' 1,
          tx_record ''dev_sell'' 2, tx_record ''dev_sell'' 3, tx_record ''dev_sell'' 4,
          [''type'' \<mapsto> PStr ''lp_remove'', ''amount'' \<mapsto> PInt (10 ^ 400)],
          [''type'' \<mapsto> PStr ''lp_remove'', ''amount'' \<mapsto> PFloat 1.5]]) = 0
     \<and> confidence (detect_rug_patterns fsum [tx_record ''dev_sell'' 1,
          tx_record ''dev_sell'' 2, tx_record ''dev_sell'' 3, tx_record ''dev_sell'' 4,
          [''type'' \<mapsto> PStr ''lp_remove'', ''amount'' \<mapsto> PInt (10 ^ 400)],
          [''type'' \<mapsto> PStr ''lp_remove'', ''amount'' \<mapsto> PFloat 1.5]]) \<noteq> 0.3
     \<and> confidence (detect_rug_patterns fsum [tx_record ''dev_sell'' 1,
          tx_record ''dev_sell'' 2, tx_record ''dev_sell'' 3, tx_record ''dev_sell'' 4,
          [''type'' \<mapsto> PStr ''lp_remove'', ''amount'' \<mapsto> PInt (10 ^ 400)],
          [''type'' \<mapsto> PStr ''lp_remove'', ''amount'' \<mapsto> PFloat 1.5]])
         \<noteq> min (0.3 * real (length (detected_patterns (detect_rug_patterns fsum
               [tx_record ''dev_sell'' 1, tx_record ''dev_sell'' 2,
                tx_record ''dev_sell'' 3, tx_record ''dev_sell'' 4,
                [''type'' \<mapsto> PStr ''lp_remove'', ''amount'' \<mapsto> PInt (10 ^ 400)],
                [''type'' \<mapsto> PStr ''lp_remove'', ''amount'' \<mapsto> PFloat 1.5]])))) 1.0"
proof (rule allI)
  fix fsum
  show "numeric_amounts [tx_record ''dev_sell'' 1, tx_record ''dev_sell'' 2,
        tx_record ''dev_sell'' 3, tx_record ''dev_sell'' 4,
        [''type'' \<mapsto> PStr ''lp_remove'', ''amount'' \<mapsto> PInt (10 ^ 400)],
        [''type'' \<mapsto> PStr ''lp_remove'', ''amount'' \<mapsto> PFloat 1.5]]
     \<and> detected_patterns (detect_rug_patterns fsum [tx_record ''dev_sell'' 1,
          tx_record ''dev_sell'' 2, tx_record ''dev_sell'' 3, tx_record ''dev_sell'' 4,
          [''type'' \<mapsto> PStr ''lp_remove'', ''amount'' \<mapsto> PInt (10 ^ 400)],
          [''type'' \<mapsto> PStr ''lp_remove'', ''amount'' \<mapsto> PFloat 1.5]])
         = [''Multiple dev wallet sells detected'']
     \<and> risk_level (detect_rug_patterns fsum [tx_record ''dev_sell'' 1,
          tx_record ''dev_sell'' 2, tx_record ''dev_sell'' 3, tx_record ''dev_sell'' 4,
          [''type'' \<mapsto> PStr ''lp_remove'', ''amount'' \<mapsto> PInt (10 ^ 400)],
          [''type'' \<mapsto> PStr ''lp_remove'', ''amount'' \<mapsto> PFloat 1.5]]) = MEDIUM
     \<and> confidence (detect_rug_patterns fsum [tx_record ''dev_sell'' 1,
          tx_record ''dev_sell'' 2, tx_record ''dev_sell'' 3, tx_record ''dev_sell'' 4,
          [''type'' \<mapsto> PStr ''lp_remove'', ''amount'' \<mapsto> PInt (10 ^ 400)],
          [''type'' \<mapsto> PStr ''lp_remove'', ''amount'' \<mapsto> PFloat 1.5]]) = 0
     \<and> confidence (detect_rug_patterns fsum [tx_record ''dev_sell'' 1,
          tx_record ''dev_sell'' 2, tx_record ''dev_sell'' 3, tx_record ''dev_sell'' 4,
          [''type'' \<mapsto> PStr ''lp_remove'', ''amount'' \<mapsto> PInt (10 ^ 400)],
          [''type'' \<mapsto> PStr ''lp_remove'', ''amount'' \<mapsto> PFloat 1.5]]) \<noteq> 0.3
     \<and> confidence (detect_rug_patterns fsum [tx_record ''dev_sell'' 1,
          tx_record ''dev_sell'' 2, tx_record ''dev_sell'' 3, tx_record ''dev_sell'' 4,
          [''type'' \<mapsto> PStr ''lp_remove'', ''amount'' \<mapsto> PInt (10 ^ 400)],
          [''type'' \<mapsto> PStr ''lp_remove'', ''amount'' \<mapsto> PFloat 1.5]])
         \<noteq> min (0.3 * real (length (detected_patterns (detect_rug_patterns fsum
               [tx_record ''dev_sell'' 1, tx_record ''dev_sell'' 2,
                tx_record ''dev_sell'' 3, tx_record ''dev_sell'' 4,
                [''type'' \<mapsto> PStr ''lp_remove'', ''amount'' \<mapsto> PInt (10 ^ 400)],
                [''type'' \<mapsto> PStr ''lp_remove'', ''amount'' \<mapsto> PFloat 1.5]])))) 1.0"
    by code_simp
qed

text \<open>
  Claim C10. In every verdict returned, the flag \<^verbatim>\<open>is_suspicious\<close> is set exactly when
  the level is HIGH, which is exactly when the liquidity-removal pattern is in the list.
  With the dev-sell pattern alone the verdict is not suspicious and the level is MEDIUM;
  without the liquidity pattern the level is never above MEDIUM.
\<close>

theorem verdict_invariant:
  "is_suspicious (detect_rug_patterns fsum h) = (risk_level (detect_rug_patterns fsum h) = HIGH)
   \<and> (risk_level (detect_rug_patterns fsum h) = HIGH)
       = (''Significant liquidity removal''
            \<in> set (detected_patterns (detect_rug_patterns fsum h)))
   \<and> (detected_patterns (detect_rug_patterns fsum h) = [''Multiple dev wallet sells detected'']
        \<longrightarrow> \<not> is_suspicious (detect_rug_patterns fsum h)
            \<and> risk_level (detect_rug_patterns fsum h) = MEDIUM)
   \<and> (''Significant liquidity removal''
         \<notin> set (detected_patterns (detect_rug_patterns fsum h))
        \<longrightarrow> \<not> is_suspicious (detect_rug_patterns fsum h)
            \<and> level_rank (risk_level (detect_rug_patterns fsum h)) \<le> level_rank MEDIUM)"
proof (cases "lp_sum fsum h")
  case (Inl e)
  show ?thesis
    by (cases "3 < dev_sell_count h")
      (simp_all add: detect_rug_patterns_raised(1) [OF Inl])
next
  case (Inr t)
  show ?thesis
    by (cases "3 < dev_sell_count h"; cases "exceeds_50 t")
      (simp_all add: detect_rug_patterns_returned(1) [OF Inr])
qed

theorem verdict_invariant_witness:
  "\<forall>fsum.
     detected_patterns (detect_rug_patterns fsum [tx_record ''dev_sell'' 1,
        tx_record ''dev_sell'' 2, tx_record ''dev_sell'' 3, tx_record ''dev_sell'' 4])
       = [''Multiple dev wallet sells detected'']
     \<and> ''Significant liquidity removal'' \<notin> set (detected_patterns (detect_rug_patterns fsum
          [tx_record ''dev_sell'' 1, tx_record ''dev_sell'' 2,
           tx_record ''dev_sell'' 3, tx_record ''dev_sell'' 4]))
     \<and> \<not> is_suspicious (detect_rug_patterns fsum [tx_record ''dev_sell'' 1,
          tx_record ''dev_sell'' 2, tx_record ''dev_sell'' 3, tx_record ''dev_sell'' 4])
     \<and> risk_level (detect_rug_patterns fsum [tx_record ''dev_sell'' 1,
          tx_record ''dev_sell'' 2, tx_record ''dev_sell'' 3, tx_record ''dev_sell'' 4]) = MEDIUM"
proof (rule allI)
  fix fsum
  show "detected_patterns (detect_rug_patterns fsum [tx_record ''dev_sell'' 1,
        tx_record ''dev_sell'' 2, tx_record ''dev_sell'' 3, tx_record ''dev_sell'' 4])
       = [''Multiple dev wallet sells detected'']
     \<and> ''Significant liquidity removal'' \<notin> set (detected_patterns (detect_rug_patterns fsum
          [tx_record ''dev_sell'' 1, tx_record ''dev_sell'' 2,
           tx_record ''dev_sell'' 3, tx_record ''dev_sell'' 4]))
     \<and> \<not> is_suspicious (detect_rug_patterns fsum [tx_record ''dev_sell'' 1,
          tx_record ''dev_sell'' 2, tx_record ''dev_sell'' 3, tx_record ''dev_sell'' 4])
     \<and> risk_level (detect_rug_patterns fsum [tx_record ''dev_sell'' 1,
          tx_record ''dev_sell'' 2, tx_record ''dev_sell'' 3, tx_record ''dev_sell'' 4]) = MEDIUM"
    using verdict_invariant [of fsum "[tx_record ''dev_sell'' 1, tx_record ''dev_sell'' 2,
          tx_record ''dev_sell'' 3, tx_record ''dev_sell'' 4]"]
    by (simp add: scenario_four_dev_sells)
qed

end
